theory Spec2Isabelle
  imports Main
begin

section \<open>Data model\<close>

text \<open>
  The schema types \<open>Product\<close>, \<open>Customer\<close> and \<open>Order\<close> come from the generated
  \<open>types/api.types.ts\<close>. Of a product the conversation code reads \<open>id\<close> and \<open>name\<close>
  (and \<open>price\<close> when a cart is rendered); the remaining schema fields are kept in
  \<open>product_rest\<close>. Customers and orders are only stored and handed on, so they are the
  type parameters \<open>'c\<close> and \<open>'o\<close>.

  JavaScript numbers that hold identifiers, quantities and millisecond time stamps are
  modelled as \<open>int\<close>; strings are \<open>string\<close>.
\<close>

record 'r Product =
  product_id :: int
  product_name :: string
  product_rest :: 'r

subsection \<open>The conversation manager (\<open>models/conversation.model.ts\<close>)\<close>

datatype ConversationStep =
  IDLE | GREETING | VIEWING_MENU | SELECTING_PRODUCTS | REVIEWING_CART
  | COLLECTING_CUSTOMER_INFO | CONFIRMING_ORDER | ORDER_COMPLETED

datatype awaiting_info = awaiting_name | awaiting_email | awaiting_phone

record step_context =
  sc_selectedCategory :: "int option"
  awaitingConfirmation :: "bool option"
  awaitingCustomerInfo :: "awaiting_info option"

record 'r CartItem =
  product :: "'r Product"
  quantity :: int

record ('r, 'c, 'o) ConversationState =
  cs_userId :: string
  currentStep :: ConversationStep
  cs_cart :: "'r CartItem list"
  cs_customer :: "'c option"
  cs_pendingOrder :: "'o option"
  lastActivity :: int
  cs_context :: step_context

text \<open>\<open>SESSION_TIMEOUT = 30 * 60 * 1000\<close> milliseconds.\<close>

definition SESSION_TIMEOUT :: int where
  "SESSION_TIMEOUT = 30 * 60 * 1000"

text \<open>
  \<open>isSessionValid\<close> reads the clock itself; the reading is the argument \<open>now\<close>.
\<close>

definition isSessionValid :: "int \<Rightarrow> ('r, 'c, 'o) ConversationState \<Rightarrow> bool" where
  "isSessionValid now conversation \<longleftrightarrow> now - lastActivity conversation < SESSION_TIMEOUT"

definition newConversation :: "string \<Rightarrow> int \<Rightarrow> ('r, 'c, 'o) ConversationState" where
  "newConversation uid now =
     \<lparr> cs_userId = uid, currentStep = IDLE, cs_cart = [], cs_customer = None,
       cs_pendingOrder = None, lastActivity = now,
       cs_context = \<lparr> sc_selectedCategory = None, awaitingConfirmation = None,
                      awaitingCustomerInfo = None \<rparr> \<rparr>"

text \<open>
  \<open>getConversation\<close> returns the session and the updated map. It reads the clock once
  in \<open>isSessionValid\<close> (\<open>t_check\<close>, only when an entry exists) and once for the new
  \<open>lastActivity\<close> (\<open>t_touch\<close>).
\<close>

definition getConversation ::
  "int \<Rightarrow> int \<Rightarrow> string \<Rightarrow> (string \<rightharpoonup> ('r, 'c, 'o) ConversationState)
     \<Rightarrow> ('r, 'c, 'o) ConversationState \<times> (string \<rightharpoonup> ('r, 'c, 'o) ConversationState)" where
  "getConversation t_check t_touch uid conversations =
     (case conversations uid of
        Some existing \<Rightarrow>
          if isSessionValid t_check existing
          then (let touched = existing\<lparr>lastActivity := t_touch\<rparr>
                in (touched, conversations(uid \<mapsto> touched)))
          else (newConversation uid t_touch,
                conversations(uid \<mapsto> newConversation uid t_touch))
      | None \<Rightarrow>
          (newConversation uid t_touch,
           conversations(uid \<mapsto> newConversation uid t_touch)))"

subsection \<open>The conversation machine (\<open>models/conversationMachine\<close>)\<close>

record CustomerInfo =
  firstName :: "string option"
  lastName :: "string option"
  email :: "string option"

record ('r, 'c, 'o) ConversationContext =
  userId :: string
  cart :: "'r CartItem list"
  customer :: "'c option"
  pendingOrder :: "'o option"
  selectedCategory :: "int option"
  customerInfo :: CustomerInfo
  error :: "string option"

text \<open>
  The events of \<open>ConversationEvent\<close>, then the events the two invoked services
  (\<open>createCustomer\<close>, \<open>placeOrder\<close>) deliver when their promise settles, then
  \<open>CUSTOMER_FOUND\<close>, which the message handler sends through its untyped actor.
\<close>

datatype ('r, 'c, 'o) ConversationEvent =
    START
  | VIEW_MENU
  | SELECT_CATEGORY int
  | ADD_TO_CART "'r Product" int
  | VIEW_CART
  | CHECKOUT
  | PROVIDE_NAME string string
  | PROVIDE_EMAIL string
  | CONFIRM_ORDER
  | CANCEL_ORDER
  | ORDER_PLACED 'o
  | CLEAR_CART
  | BACK
  | ERROR string
  | RESET
  | done_createCustomer 'c
  | error_createCustomer string
  | done_placeOrder 'o
  | error_placeOrder string
  | CUSTOMER_FOUND 'c

datatype checkout_state =
  checkingCustomer | collectingName | collectingEmail | creatingCustomer
  | confirmingOrder | placingOrder

datatype state_value =
  idle | greeting | viewingMenu | selectingProducts | reviewingCart
  | checkout checkout_state | orderCompleted

text \<open>The machine starts in \<open>idle\<close> with an empty cart and empty \<open>customerInfo\<close>.\<close>

definition initial_context :: "string \<Rightarrow> ('r, 'c, 'o) ConversationContext" where
  "initial_context uid =
     \<lparr> userId = uid, cart = [], customer = None, pendingOrder = None,
       selectedCategory = None,
       customerInfo = \<lparr> firstName = None, lastName = None, email = None \<rparr>,
       error = None \<rparr>"

text \<open>
  The three cart assignments of the machine. \<open>greeting\<close> and \<open>reviewingCart\<close> append a
  line; \<open>selectingProducts\<close> looks for a line with the product's id and, when there is
  one, maps over the cart adding the quantity to every line with that id.
\<close>

definition append_item :: "'r CartItem list \<Rightarrow> 'r Product \<Rightarrow> int \<Rightarrow> 'r CartItem list" where
  "append_item c p q = c @ [\<lparr> product = p, quantity = q \<rparr>]"

definition merge_item :: "'r CartItem list \<Rightarrow> 'r Product \<Rightarrow> int \<Rightarrow> 'r CartItem list" where
  "merge_item c p q =
     (case find (\<lambda>item. product_id (product item) = product_id p) c of
        Some existingItem \<Rightarrow>
          map (\<lambda>item. if product_id (product item) = product_id p
                       then item\<lparr>quantity := quantity item + q\<rparr> else item) c
      | None \<Rightarrow> c @ [\<lparr> product = p, quantity = q \<rparr>])"

text \<open>The context assignment shared by both \<open>RESET\<close> transitions.\<close>

definition reset_context ::
  "('r, 'c, 'o) ConversationContext \<Rightarrow> ('r, 'c, 'o) ConversationContext" where
  "reset_context ctx =
     ctx\<lparr> cart := [], customer := None, pendingOrder := None, selectedCategory := None,
          customerInfo := \<lparr> firstName = None, lastName = None, email = None \<rparr>,
          error := None \<rparr>"

text \<open>
  One definition per state node: its \<open>on\<close> table (for the two invoking states, the
  \<open>onDone\<close> and \<open>onError\<close> transitions). The result is the target and the assigned
  context of the first enabled transition, \<open>None\<close> when the node has none for the event.
\<close>

definition idle_on ::
  "('r, 'c, 'o) ConversationContext \<Rightarrow> ('r, 'c, 'o) ConversationEvent
     \<Rightarrow> (state_value \<times> ('r, 'c, 'o) ConversationContext) option" where
  "idle_on ctx ev =
     (case ev of
        START \<Rightarrow> Some (greeting, ctx)
      | VIEW_MENU \<Rightarrow> Some (viewingMenu, ctx)
      | _ \<Rightarrow> None)"

definition greeting_on ::
  "('r, 'c, 'o) ConversationContext \<Rightarrow> ('r, 'c, 'o) ConversationEvent
     \<Rightarrow> (state_value \<times> ('r, 'c, 'o) ConversationContext) option" where
  "greeting_on ctx ev =
     (case ev of
        VIEW_MENU \<Rightarrow> Some (viewingMenu, ctx)
      | ADD_TO_CART p q \<Rightarrow> Some (selectingProducts, ctx\<lparr>cart := append_item (cart ctx) p q\<rparr>)
      | _ \<Rightarrow> None)"

definition viewingMenu_on ::
  "('r, 'c, 'o) ConversationContext \<Rightarrow> ('r, 'c, 'o) ConversationEvent
     \<Rightarrow> (state_value \<times> ('r, 'c, 'o) ConversationContext) option" where
  "viewingMenu_on ctx ev =
     (case ev of
        SELECT_CATEGORY categoryId \<Rightarrow>
          Some (selectingProducts, ctx\<lparr>selectedCategory := Some categoryId\<rparr>)
      | VIEW_CART \<Rightarrow> Some (reviewingCart, ctx)
      | BACK \<Rightarrow> Some (greeting, ctx)
      | _ \<Rightarrow> None)"

definition selectingProducts_on ::
  "('r, 'c, 'o) ConversationContext \<Rightarrow> ('r, 'c, 'o) ConversationEvent
     \<Rightarrow> (state_value \<times> ('r, 'c, 'o) ConversationContext) option" where
  "selectingProducts_on ctx ev =
     (case ev of
        ADD_TO_CART p q \<Rightarrow> Some (selectingProducts, ctx\<lparr>cart := merge_item (cart ctx) p q\<rparr>)
      | VIEW_CART \<Rightarrow> Some (reviewingCart, ctx)
      | VIEW_MENU \<Rightarrow> Some (viewingMenu, ctx)
      | CHECKOUT \<Rightarrow> Some (checkout checkingCustomer, ctx)
      | _ \<Rightarrow> None)"

definition reviewingCart_on ::
  "('r, 'c, 'o) ConversationContext \<Rightarrow> ('r, 'c, 'o) ConversationEvent
     \<Rightarrow> (state_value \<times> ('r, 'c, 'o) ConversationContext) option" where
  "reviewingCart_on ctx ev =
     (case ev of
        CHECKOUT \<Rightarrow> if length (cart ctx) > 0 then Some (checkout checkingCustomer, ctx) else None
      | VIEW_MENU \<Rightarrow> Some (viewingMenu, ctx)
      | CLEAR_CART \<Rightarrow> Some (viewingMenu, ctx\<lparr>cart := []\<rparr>)
      | ADD_TO_CART p q \<Rightarrow> Some (selectingProducts, ctx\<lparr>cart := append_item (cart ctx) p q\<rparr>)
      | _ \<Rightarrow> None)"

definition collectingName_on ::
  "('r, 'c, 'o) ConversationContext \<Rightarrow> ('r, 'c, 'o) ConversationEvent
     \<Rightarrow> (state_value \<times> ('r, 'c, 'o) ConversationContext) option" where
  "collectingName_on ctx ev =
     (case ev of
        PROVIDE_NAME fn ln \<Rightarrow>
          Some (checkout collectingEmail,
                ctx\<lparr>customerInfo := (customerInfo ctx)\<lparr>firstName := Some fn, lastName := Some ln\<rparr>\<rparr>)
      | CANCEL_ORDER \<Rightarrow> Some (reviewingCart, ctx)
      | _ \<Rightarrow> None)"

definition collectingEmail_on ::
  "('r, 'c, 'o) ConversationContext \<Rightarrow> ('r, 'c, 'o) ConversationEvent
     \<Rightarrow> (state_value \<times> ('r, 'c, 'o) ConversationContext) option" where
  "collectingEmail_on ctx ev =
     (case ev of
        PROVIDE_EMAIL em \<Rightarrow>
          Some (checkout creatingCustomer,
                ctx\<lparr>customerInfo := (customerInfo ctx)\<lparr>email := Some em\<rparr>\<rparr>)
      | CANCEL_ORDER \<Rightarrow> Some (reviewingCart, ctx)
      | _ \<Rightarrow> None)"

definition creatingCustomer_on ::
  "('r, 'c, 'o) ConversationContext \<Rightarrow> ('r, 'c, 'o) ConversationEvent
     \<Rightarrow> (state_value \<times> ('r, 'c, 'o) ConversationContext) option" where
  "creatingCustomer_on ctx ev =
     (case ev of
        done_createCustomer output \<Rightarrow> Some (checkout confirmingOrder, ctx\<lparr>customer := Some output\<rparr>)
      | error_createCustomer message \<Rightarrow> Some (checkout collectingEmail, ctx\<lparr>error := Some message\<rparr>)
      | _ \<Rightarrow> None)"

definition confirmingOrder_on ::
  "('r, 'c, 'o) ConversationContext \<Rightarrow> ('r, 'c, 'o) ConversationEvent
     \<Rightarrow> (state_value \<times> ('r, 'c, 'o) ConversationContext) option" where
  "confirmingOrder_on ctx ev =
     (case ev of
        CONFIRM_ORDER \<Rightarrow> Some (checkout placingOrder, ctx)
      | CANCEL_ORDER \<Rightarrow> Some (reviewingCart, ctx)
      | _ \<Rightarrow> None)"

definition placingOrder_on ::
  "('r, 'c, 'o) ConversationContext \<Rightarrow> ('r, 'c, 'o) ConversationEvent
     \<Rightarrow> (state_value \<times> ('r, 'c, 'o) ConversationContext) option" where
  "placingOrder_on ctx ev =
     (case ev of
        done_placeOrder output \<Rightarrow> Some (orderCompleted, ctx\<lparr>pendingOrder := Some output, cart := []\<rparr>)
      | error_placeOrder message \<Rightarrow> Some (checkout confirmingOrder, ctx\<lparr>error := Some message\<rparr>)
      | _ \<Rightarrow> None)"

definition orderCompleted_on ::
  "('r, 'c, 'o) ConversationContext \<Rightarrow> ('r, 'c, 'o) ConversationEvent
     \<Rightarrow> (state_value \<times> ('r, 'c, 'o) ConversationContext) option" where
  "orderCompleted_on ctx ev =
     (case ev of
        START \<Rightarrow> Some (greeting, ctx)
      | VIEW_MENU \<Rightarrow> Some (viewingMenu, ctx)
      | RESET \<Rightarrow> Some (idle, reset_context ctx)
      | _ \<Rightarrow> None)"

text \<open>
  The \<open>on\<close> table of the machine's root node: \<open>ERROR\<close> has no target (the state value
  stays), \<open>RESET\<close> targets \<open>.idle\<close>.
\<close>

definition root_on ::
  "state_value \<Rightarrow> ('r, 'c, 'o) ConversationContext \<Rightarrow> ('r, 'c, 'o) ConversationEvent
     \<Rightarrow> (state_value \<times> ('r, 'c, 'o) ConversationContext) option" where
  "root_on s ctx ev =
     (case ev of
        ERROR message \<Rightarrow> Some (s, ctx\<lparr>error := Some message\<rparr>)
      | RESET \<Rightarrow> Some (idle, reset_context ctx)
      | _ \<Rightarrow> None)"

text \<open>
  Transition selection: the active atomic state is asked first, then its ancestors up to
  the root. \<open>checkingCustomer\<close> declares no \<open>on\<close> table and neither does its parent
  \<open>checkout\<close>.
\<close>

definition leaf_on ::
  "state_value \<Rightarrow> ('r, 'c, 'o) ConversationContext \<Rightarrow> ('r, 'c, 'o) ConversationEvent
     \<Rightarrow> (state_value \<times> ('r, 'c, 'o) ConversationContext) option" where
  "leaf_on s ctx ev =
     (case s of
        idle \<Rightarrow> idle_on ctx ev
      | greeting \<Rightarrow> greeting_on ctx ev
      | viewingMenu \<Rightarrow> viewingMenu_on ctx ev
      | selectingProducts \<Rightarrow> selectingProducts_on ctx ev
      | reviewingCart \<Rightarrow> reviewingCart_on ctx ev
      | checkout checkingCustomer \<Rightarrow> None
      | checkout collectingName \<Rightarrow> collectingName_on ctx ev
      | checkout collectingEmail \<Rightarrow> collectingEmail_on ctx ev
      | checkout creatingCustomer \<Rightarrow> creatingCustomer_on ctx ev
      | checkout confirmingOrder \<Rightarrow> confirmingOrder_on ctx ev
      | checkout placingOrder \<Rightarrow> placingOrder_on ctx ev
      | orderCompleted \<Rightarrow> orderCompleted_on ctx ev)"

definition select_transition ::
  "state_value \<Rightarrow> ('r, 'c, 'o) ConversationContext \<Rightarrow> ('r, 'c, 'o) ConversationEvent
     \<Rightarrow> (state_value \<times> ('r, 'c, 'o) ConversationContext) option" where
  "select_transition s ctx ev =
     (case leaf_on s ctx ev of
        Some t \<Rightarrow> Some t
      | None \<Rightarrow> root_on s ctx ev)"

text \<open>
  Eventless (\<open>always\<close>) transitions: only \<open>checkout.checkingCustomer\<close> has them, the
  first guarded by \<open>!!context.customer\<close>, the second unguarded.
\<close>

definition always :: "state_value \<Rightarrow> ('r, 'c, 'o) ConversationContext \<Rightarrow> state_value option" where
  "always s ctx =
     (case s of
        checkout checkingCustomer \<Rightarrow>
          if customer ctx \<noteq> None then Some (checkout confirmingOrder)
          else Some (checkout collectingName)
      | _ \<Rightarrow> None)"

text \<open>
  After a transition the machine keeps taking eventless transitions until none is
  enabled. \<open>microsteps s ctx\<close> is the list of states it is in on the way, starting with
  the state \<open>s\<close> just entered; the last one is where the machine rests.
\<close>

function microsteps :: "state_value \<Rightarrow> ('r, 'c, 'o) ConversationContext \<Rightarrow> state_value list" where
  "microsteps s ctx =
     (case always s ctx of
        None \<Rightarrow> [s]
      | Some s' \<Rightarrow> s # microsteps s' ctx)"
  by pat_completeness auto
termination
  by (relation "measure (\<lambda>(s, ctx). if s = checkout checkingCustomer then 1 else 0)")
     (auto simp: always_def split: state_value.splits checkout_state.splits if_splits)

declare microsteps.simps [simp del]

text \<open>
  \<open>send\<close> is one macrostep of the actor on a snapshot (state value and context): an
  event without an enabled transition leaves the snapshot as it is.
\<close>

definition send ::
  "state_value \<times> ('r, 'c, 'o) ConversationContext \<Rightarrow> ('r, 'c, 'o) ConversationEvent
     \<Rightarrow> state_value \<times> ('r, 'c, 'o) ConversationContext" where
  "send snapshot ev =
     (case select_transition (fst snapshot) (snd snapshot) ev of
        None \<Rightarrow> snapshot
      | Some (target, ctx') \<Rightarrow> (last (microsteps target ctx'), ctx'))"

text \<open>The states the machine is in during the macrostep, in order (empty when the event is dropped).\<close>

definition send_path ::
  "state_value \<times> ('r, 'c, 'o) ConversationContext \<Rightarrow> ('r, 'c, 'o) ConversationEvent
     \<Rightarrow> state_value list" where
  "send_path snapshot ev =
     (case select_transition (fst snapshot) (snd snapshot) ev of
        None \<Rightarrow> []
      | Some (target, ctx') \<Rightarrow> microsteps target ctx')"

definition send_all ::
  "state_value \<times> ('r, 'c, 'o) ConversationContext \<Rightarrow> ('r, 'c, 'o) ConversationEvent list
     \<Rightarrow> state_value \<times> ('r, 'c, 'o) ConversationContext" where
  "send_all snapshot evs = foldl send snapshot evs"

text \<open>\<open>createActor(...).start()\<close>: the initial snapshot of a user's actor.\<close>

definition start_actor :: "string \<Rightarrow> state_value \<times> ('r, 'c, 'o) ConversationContext" where
  "start_actor uid = (idle, initial_context uid)"

text \<open>
  The \<open>type\<close> string of an event, and the types the union \<open>ConversationEvent\<close>
  declares. The service results carry the type names the state-chart library gives them.
\<close>

definition event_type :: "('r, 'c, 'o) ConversationEvent \<Rightarrow> string" where
  "event_type ev =
     (case ev of
        START \<Rightarrow> ''START''
      | VIEW_MENU \<Rightarrow> ''VIEW_MENU''
      | SELECT_CATEGORY _ \<Rightarrow> ''SELECT_CATEGORY''
      | ADD_TO_CART _ _ \<Rightarrow> ''ADD_TO_CART''
      | VIEW_CART \<Rightarrow> ''VIEW_CART''
      | CHECKOUT \<Rightarrow> ''CHECKOUT''
      | PROVIDE_NAME _ _ \<Rightarrow> ''PROVIDE_NAME''
      | PROVIDE_EMAIL _ \<Rightarrow> ''PROVIDE_EMAIL''
      | CONFIRM_ORDER \<Rightarrow> ''CONFIRM_ORDER''
      | CANCEL_ORDER \<Rightarrow> ''CANCEL_ORDER''
      | ORDER_PLACED _ \<Rightarrow> ''ORDER_PLACED''
      | CLEAR_CART \<Rightarrow> ''CLEAR_CART''
      | BACK \<Rightarrow> ''BACK''
      | ERROR _ \<Rightarrow> ''ERROR''
      | RESET \<Rightarrow> ''RESET''
      | done_createCustomer _ \<Rightarrow> ''xstate.done.actor.createCustomer''
      | error_createCustomer _ \<Rightarrow> ''xstate.error.actor.createCustomer''
      | done_placeOrder _ \<Rightarrow> ''xstate.done.actor.placeOrder''
      | error_placeOrder _ \<Rightarrow> ''xstate.error.actor.placeOrder''
      | CUSTOMER_FOUND _ \<Rightarrow> ''CUSTOMER_FOUND'')"

definition declared_event_types :: "string list" where
  "declared_event_types =
     [''START'', ''VIEW_MENU'', ''SELECT_CATEGORY'', ''ADD_TO_CART'', ''VIEW_CART'',
      ''CHECKOUT'', ''PROVIDE_NAME'', ''PROVIDE_EMAIL'', ''CONFIRM_ORDER'', ''CANCEL_ORDER'',
      ''ORDER_PLACED'', ''CLEAR_CART'', ''BACK'', ''ERROR'', ''RESET'']"

subsection \<open>The message handler (\<open>services/messageHandler.service\<close>)\<close>

text \<open>
  The two services given to the actor await the backend and return its value or rethrow
  its error. The settled backend call is the argument: \<open>Inr\<close> the returned value,
  \<open>Inl\<close> the message of the error thrown. The result is the event the invoking state
  receives.
\<close>

definition createCustomer :: "string + 'c \<Rightarrow> ('r, 'c, 'o) ConversationEvent" where
  "createCustomer settled =
     (case settled of Inr c \<Rightarrow> done_createCustomer c | Inl message \<Rightarrow> error_createCustomer message)"

definition placeOrder :: "string + 'o \<Rightarrow> ('r, 'c, 'o) ConversationEvent" where
  "placeOrder settled =
     (case settled of Inr ord \<Rightarrow> done_placeOrder ord | Inl message \<Rightarrow> error_placeOrder message)"

text \<open>
  A handler's result: the actor's snapshot afterwards, the events it sent to the actor
  and the plain text messages it sent to the user, both in order. The button and list
  messages and the texts that render the cart or the order (\<open>showCart\<close>,
  \<open>confirmOrder\<close>) are left out.
\<close>

record ('r, 'c, 'o) handled =
  snapshot_after :: "state_value \<times> ('r, 'c, 'o) ConversationContext"
  sent :: "('r, 'c, 'o) ConversationEvent list"
  texts :: "string list"

text \<open>
  \<open>handleCheckoutState\<close>: the argument \<open>found\<close> is what \<open>getCustomerByPhone\<close> returned
  (\<open>None\<close> for \<open>null\<close>).
\<close>

definition handleCheckoutState ::
  "state_value \<times> ('r, 'c, 'o) ConversationContext \<Rightarrow> 'c option \<Rightarrow> ('r, 'c, 'o) handled" where
  "handleCheckoutState actor found =
     (case found of
        Some c \<Rightarrow>
          \<lparr> snapshot_after = send actor (CUSTOMER_FOUND c), sent = [CUSTOMER_FOUND c], texts = [] \<rparr>
      | None \<Rightarrow>
          \<lparr> snapshot_after = actor, sent = [],
            texts = [''I need a few details to complete your order.'' @ [CHR 0x0A, CHR 0x0A]
                     @ ''What'' @ [CHR 0x27] @ ''s your first name?''] \<rparr>)"

text \<open>
  \<open>String.prototype.trim\<close> removes white space and line terminators from both ends.
  A \<open>char\<close> is one code unit below 256, so of the characters \<open>trim\<close> removes these are
  the ones a \<open>string\<close> can hold: TAB, LF, VT, FF, CR, SP and NBSP.
\<close>

definition is_white_space :: "char \<Rightarrow> bool" where
  "is_white_space ch \<longleftrightarrow> ch \<in> {CHR 0x09, CHR 0x0A, CHR 0x0B, CHR 0x0C, CHR 0x0D, CHR 0x20, CHR 0xA0}"

definition trim :: "string \<Rightarrow> string" where
  "trim s = rev (dropWhile is_white_space (rev (dropWhile is_white_space s)))"

text \<open>\<open>includes\<close> with a search string of one character.\<close>

definition includes_ch :: "string \<Rightarrow> char \<Rightarrow> bool" where
  "includes_ch s ch \<longleftrightarrow> ch \<in> set s"

definition handleCollectingEmailState ::
  "state_value \<times> ('r, 'c, 'o) ConversationContext \<Rightarrow> string \<Rightarrow> ('r, 'c, 'o) handled" where
  "handleCollectingEmailState actor input =
     (let em = trim input in
      if \<not> includes_ch em (CHR ''@'') \<or> \<not> includes_ch em (CHR ''.'')
      then \<lparr> snapshot_after = actor, sent = [],
             texts = [''Please provide a valid email address.''] \<rparr>
      else \<lparr> snapshot_after = send actor (PROVIDE_EMAIL em), sent = [PROVIDE_EMAIL em],
             texts = [''Creating your customer profile...''] \<rparr>)"

text \<open>An item of the parsed order (\<open>OrderItem\<close> of \<open>services/ai.service.ts\<close>).\<close>

record OrderItem =
  productName :: string
  item_quantity :: int

text \<open>
  \<open>processNaturalOrderRequest\<close>, given the catalog \<open>getProducts\<close> returned and the items
  \<open>parseOrderFromMessage\<close> returned. \<open>add_items\<close> is its \<open>for\<close> loop.
\<close>

fun add_items ::
  "'r Product list \<Rightarrow> OrderItem list \<Rightarrow> ('r, 'c, 'o) handled \<Rightarrow> ('r, 'c, 'o) handled" where
  "add_items products [] h = h"
| "add_items products (item # orderItems) h =
     (case find (\<lambda>p. product_name p = productName item) products of
        Some p \<Rightarrow>
          add_items products orderItems
            (h\<lparr> snapshot_after := send (snapshot_after h) (ADD_TO_CART p (item_quantity item)),
                sent := sent h @ [ADD_TO_CART p (item_quantity item)] \<rparr>)
      | None \<Rightarrow> add_items products orderItems h)"

definition processNaturalOrderRequest ::
  "state_value \<times> ('r, 'c, 'o) ConversationContext \<Rightarrow> 'r Product list \<Rightarrow> OrderItem list
     \<Rightarrow> ('r, 'c, 'o) handled" where
  "processNaturalOrderRequest actor products orderItems =
     (if length orderItems = 0
      then \<lparr> snapshot_after = actor, sent = [],
             texts = [''I couldn'' @ [CHR 0x27] @ ''t understand your order. Could you please be more specific about what you'' @ [CHR 0x27] @ ''d like to order?''] \<rparr>
      else add_items products orderItems \<lparr> snapshot_after = actor, sent = [], texts = [] \<rparr>)"

subsection \<open>Concrete values\<close>

text \<open>
  A small catalog, a customer and an order number, and two snapshots, used where a
  statement is evaluated at a concrete input. Customers and orders are numbers here.
\<close>

definition latte :: "unit Product" where
  "latte = \<lparr> product_id = 42, product_name = ''Caffe Latte'', product_rest = () \<rparr>"

definition mocha :: "unit Product" where
  "mocha = \<lparr> product_id = 7, product_name = ''Mocha'', product_rest = () \<rparr>"

definition fresh_context :: "(unit, nat, nat) ConversationContext" where
  "fresh_context = initial_context ''5511999''"

definition known_context :: "(unit, nat, nat) ConversationContext" where
  "known_context =
     (initial_context ''5511999'')
       \<lparr> cart := [\<lparr> product = latte, quantity = 2 \<rparr>], customer := Some 17 \<rparr>"

definition unknown_context :: "(unit, nat, nat) ConversationContext" where
  "unknown_context =
     (initial_context ''5511999'') \<lparr> cart := [\<lparr> product = latte, quantity = 2 \<rparr>] \<rparr>"

definition stored_session :: "(unit, nat, nat) ConversationState" where
  "stored_session =
     (newConversation ''5511999'' 1000)
       \<lparr> currentStep := REVIEWING_CART, cs_cart := [\<lparr> product = latte, quantity = 2 \<rparr>],
         cs_customer := Some 17 \<rparr>"

definition parsed_order :: "OrderItem list" where
  "parsed_order =
     [\<lparr> productName = ''Caffe Latte'', item_quantity = 2 \<rparr>,
      \<lparr> productName = ''latte'', item_quantity = 1 \<rparr>,
      \<lparr> productName = ''Mocha'', item_quantity = 3 \<rparr>]"

section \<open>Properties\<close>

subsection \<open>Auxiliary facts\<close>

lemmas on_defs = idle_on_def greeting_on_def viewingMenu_on_def selectingProducts_on_def
  reviewingCart_on_def collectingName_on_def collectingEmail_on_def creatingCustomer_on_def
  confirmingOrder_on_def placingOrder_on_def orderCompleted_on_def

lemma microsteps_checkingCustomer:
  "microsteps (checkout checkingCustomer) ctx =
     (if customer ctx \<noteq> None then [checkout checkingCustomer, checkout confirmingOrder]
      else [checkout checkingCustomer, checkout collectingName])"
  by (simp add: microsteps.simps [of "checkout checkingCustomer"]
      microsteps.simps [of "checkout confirmingOrder"]
      microsteps.simps [of "checkout collectingName"] always_def)

lemma microsteps_rest: "s \<noteq> checkout checkingCustomer \<Longrightarrow> microsteps s ctx = [s]"
  by (subst microsteps.simps)
     (auto simp: always_def split: state_value.splits checkout_state.splits)

lemma find_id_Some:
  "find (\<lambda>item. product_id (product item) = k) c = Some x
   \<Longrightarrow> x \<in> set c \<and> k \<in> set (map (\<lambda>item. product_id (product item)) c)"
  by (auto simp: find_Some_iff)

text \<open>
  The merging assignment of \<open>selectingProducts\<close> keeps the product ids of the lines and
  adds one only for a product not yet in the cart, so it keeps them distinct.
\<close>

lemma merge_item_ids:
  "map (\<lambda>item. product_id (product item)) (merge_item c p q) =
     (if product_id p \<in> set (map (\<lambda>item. product_id (product item)) c)
      then map (\<lambda>item. product_id (product item)) c
      else map (\<lambda>item. product_id (product item)) c @ [product_id p])"
proof (cases "find (\<lambda>item. product_id (product item) = product_id p) c")
  case None
  then have "product_id p \<notin> set (map (\<lambda>item. product_id (product item)) c)"
    by (auto simp: find_None_iff)
  with None show ?thesis
    by (simp add: merge_item_def)
next
  case (Some existingItem)
  then have "product_id p \<in> set (map (\<lambda>item. product_id (product item)) c)"
    using find_id_Some by fastforce
  moreover have
    "map (\<lambda>item. product_id (product item))
       (map (\<lambda>item. if product_id (product item) = product_id p
                    then item\<lparr>quantity := quantity item + q\<rparr> else item) c)
     = map (\<lambda>item. product_id (product item)) c"
    by (induction c) auto
  ultimately show ?thesis
    using Some by (simp add: merge_item_def)
qed

lemma merge_item_distinct:
  "distinct (map (\<lambda>item. product_id (product item)) c)
   \<Longrightarrow> distinct (map (\<lambda>item. product_id (product item)) (merge_item c p q))"
  by (simp add: merge_item_ids)

text \<open>
  With distinct product ids in the cart, the merging assignment changes the quantity held
  for the product by exactly the quantity requested, and that of no other product.
\<close>

lemma merge_item_quantity:
  assumes "distinct (map (\<lambda>item. product_id (product item)) c)"
  shows "sum_list (map quantity (filter (\<lambda>item. product_id (product item) = k) (merge_item c p q)))
       = sum_list (map quantity (filter (\<lambda>item. product_id (product item) = k) c))
         + (if k = product_id p then q else 0)"
proof (cases "find (\<lambda>item. product_id (product item) = product_id p) c")
  case None
  then show ?thesis
    by (simp add: merge_item_def)
next
  case (Some existingItem)
  have "sum_list (map quantity (filter (\<lambda>item. product_id (product item) = k)
          (map (\<lambda>item. if product_id (product item) = product_id p
                       then item\<lparr>quantity := quantity item + q\<rparr> else item) c)))
      = sum_list (map quantity (filter (\<lambda>item. product_id (product item) = k) c))
        + (if k = product_id p \<and> k \<in> set (map (\<lambda>item. product_id (product item)) c)
           then q else 0)"
    using assms by (induction c) (auto simp: image_iff)
  moreover have "product_id p \<in> set (map (\<lambda>item. product_id (product item)) c)"
    using find_id_Some [OF Some] by simp
  ultimately show ?thesis
    using Some by (simp add: merge_item_def)
qed

text \<open>
  So a run of \<open>ADD_TO_CART\<close> events handled in \<open>selectingProducts\<close> stays there and
  keeps the product ids of the cart distinct.
\<close>

lemma selectingProducts_adds_distinct:
  "distinct (map (\<lambda>item. product_id (product item)) (cart ctx))
   \<Longrightarrow> fst (send_all (selectingProducts, ctx) (map (\<lambda>(p, q). ADD_TO_CART p q) adds))
         = selectingProducts
       \<and> distinct (map (\<lambda>item. product_id (product item))
            (cart (snd (send_all (selectingProducts, ctx) (map (\<lambda>(p, q). ADD_TO_CART p q) adds)))))"
proof (induction adds arbitrary: ctx)
  case Nil
  then show ?case by (simp add: send_all_def)
next
  case (Cons a adds)
  obtain p q where a: "a = (p, q)" by (cases a)
  have step: "send (selectingProducts, ctx) (ADD_TO_CART p q)
      = (selectingProducts, ctx\<lparr>cart := merge_item (cart ctx) p q\<rparr>)"
    by (simp add: send_def select_transition_def leaf_on_def selectingProducts_on_def
        microsteps_rest)
  have "distinct (map (\<lambda>item. product_id (product item))
          (cart (ctx\<lparr>cart := merge_item (cart ctx) p q\<rparr>)))"
    using Cons.prems by (simp add: merge_item_distinct)
  from Cons.IH [OF this] show ?case
    using a step by (simp add: send_all_def)
qed

lemma set_dropWhile_keep: "\<not> P x \<Longrightarrow> x \<in> set (dropWhile P xs) \<longleftrightarrow> x \<in> set xs"
  by (induction xs) auto

text \<open>Trimming removes white space only: it keeps every other character of the input.\<close>

lemma set_trim: "\<not> is_white_space ch \<Longrightarrow> ch \<in> set (trim s) \<longleftrightarrow> ch \<in> set s"
  by (simp add: trim_def set_dropWhile_keep)

lemma sent_add_items:
  "sent (add_items products orderItems h) =
     sent h @ concat (map (\<lambda>item.
        case find (\<lambda>p. product_name p = productName item) products of
          Some p \<Rightarrow> [ADD_TO_CART p (item_quantity item)]
        | None \<Rightarrow> []) orderItems)"
  by (induction orderItems arbitrary: h) (auto split: option.splits)

lemma snapshot_add_items:
  "snapshot_after (add_items products orderItems h) =
     send_all (snapshot_after h)
       (drop (length (sent h)) (sent (add_items products orderItems h)))"
  by (induction orderItems arbitrary: h)
     (auto split: option.splits simp: send_all_def sent_add_items)

lemma find_name_Some:
  "find (\<lambda>p. product_name p = n) products = Some p
   \<Longrightarrow> p \<in> set products \<and> product_name p = n"
  by (auto simp: find_Some_iff)

lemma concat_matched:
  "concat (map (\<lambda>item.
        case find (\<lambda>p. product_name p = productName item) products of
          Some p \<Rightarrow> [ADD_TO_CART p (item_quantity item)]
        | None \<Rightarrow> []) orderItems)
   = map (\<lambda>item. ADD_TO_CART (the (find (\<lambda>p. product_name p = productName item) products))
                    (item_quantity item))
        (filter (\<lambda>item. productName item \<in> product_name ` set products) orderItems)"
proof (induction orderItems)
  case Nil
  show ?case by simp
next
  case (Cons item orderItems)
  show ?case
  proof (cases "find (\<lambda>p. product_name p = productName item) products")
    case None
    then have "productName item \<notin> product_name ` set products"
      by (auto simp: find_None_iff)
    with None Cons show ?thesis by simp
  next
    case (Some p)
    then have "productName item \<in> product_name ` set products"
      using find_name_Some [OF Some] by force
    with Some Cons show ?thesis by simp
  qed
qed

subsection \<open>The conversation machine\<close>

text \<open>
  C1. The specification asks that, whatever states the machine passes through,
  \<open>ADD_TO_CART\<close> events that repeat a product leave exactly one cart line for it,
  holding the sum of the quantities. The machine does not do this. Only \<open>selectingProducts\<close> merges; \<open>greeting\<close> and
  \<open>reviewingCart\<close> append. A latte added from \<open>greeting\<close>, then after going back
  through the menu added from \<open>greeting\<close> again, is in the cart twice, with quantities
  1 and 2, and not once with quantity 3.
\<close>

theorem greeting_add_repeats_line:
  "send_all (start_actor ''5511999'')
     [START, ADD_TO_CART latte 1, VIEW_MENU, BACK, ADD_TO_CART latte 2]
   = (selectingProducts,
      fresh_context\<lparr>cart := [\<lparr> product = latte, quantity = 1 \<rparr>,
                             \<lparr> product = latte, quantity = 2 \<rparr>]\<rparr>)"
  by (simp add: send_all_def send_def select_transition_def leaf_on_def on_defs root_on_def
      microsteps_rest append_item_def start_actor_def fresh_context_def initial_context_def)

text \<open>
  C2. In \<open>checkout.placingOrder\<close>, when the create-order call returns an order, the
  machine goes to \<open>orderCompleted\<close>, the cart is empty and \<open>pendingOrder\<close> is the order
  returned.
\<close>

theorem placingOrder_onDone:
  "fst (send (checkout placingOrder, ctx) (placeOrder (Inr ord))) = orderCompleted
   \<and> cart (snd (send (checkout placingOrder, ctx) (placeOrder (Inr ord)))) = []
   \<and> pendingOrder (snd (send (checkout placingOrder, ctx) (placeOrder (Inr ord)))) = Some ord"
  by (simp add: send_def select_transition_def leaf_on_def placingOrder_on_def placeOrder_def
      microsteps_rest)

theorem placingOrder_onDone_witness:
  "fst (send (checkout placingOrder, known_context) (placeOrder (Inr 1001))) = orderCompleted
   \<and> cart (snd (send (checkout placingOrder, known_context) (placeOrder (Inr 1001)))) = []
   \<and> pendingOrder (snd (send (checkout placingOrder, known_context) (placeOrder (Inr 1001))))
       = Some 1001"
  by (rule placingOrder_onDone)

text \<open>
  C3. In \<open>checkout.placingOrder\<close>, when the create-order call fails, the machine goes
  back to \<open>checkout.confirmingOrder\<close>, \<open>error\<close> is the failure's message and the cart
  is the one it had; so it is after confirming and failing, seen from
  \<open>confirmingOrder\<close>.
\<close>

theorem placingOrder_onError:
  "send (checkout placingOrder, ctx) (placeOrder (Inl message))
     = (checkout confirmingOrder, ctx\<lparr>error := Some message\<rparr>)
   \<and> cart (snd (send (checkout placingOrder, ctx) (placeOrder (Inl message)))) = cart ctx
   \<and> send_all (checkout confirmingOrder, ctx) [CONFIRM_ORDER, placeOrder (Inl message)]
     = (checkout confirmingOrder, ctx\<lparr>error := Some message\<rparr>)"
  by (simp add: send_all_def send_def select_transition_def leaf_on_def placingOrder_on_def
      confirmingOrder_on_def placeOrder_def microsteps_rest)

theorem placingOrder_onError_witness:
  "cart (snd (send (checkout placingOrder, known_context)
                 (placeOrder (Inl ''Failed to create order: Unknown error''))))
   = [\<lparr> product = latte, quantity = 2 \<rparr>]"
  using placingOrder_onError [of known_context "''Failed to create order: Unknown error''"]
  by (simp add: known_context_def)

text \<open>
  C4. A \<open>CHECKOUT\<close> received in \<open>reviewingCart\<close> leaves the machine in \<open>reviewingCart\<close>
  exactly when the cart is empty (the snapshot is then unchanged); with a cart that is
  not empty the machine goes into \<open>checkout\<close>.
\<close>

theorem reviewingCart_CHECKOUT:
  "(fst (send (reviewingCart, ctx) CHECKOUT) = reviewingCart \<longleftrightarrow> cart ctx = [])
   \<and> (cart ctx = [] \<longrightarrow> send (reviewingCart, ctx) CHECKOUT = (reviewingCart, ctx))
   \<and> (cart ctx \<noteq> [] \<longrightarrow> (\<exists>sub. send (reviewingCart, ctx) CHECKOUT = (checkout sub, ctx)))"
  by (simp add: send_def select_transition_def leaf_on_def reviewingCart_on_def root_on_def
      microsteps_checkingCustomer)

theorem reviewingCart_CHECKOUT_witness:
  "send (reviewingCart, fresh_context) CHECKOUT = (reviewingCart, fresh_context)
   \<and> fst (send (reviewingCart, known_context) CHECKOUT) \<noteq> reviewingCart"
proof -
  have "cart fresh_context = []" and "cart known_context \<noteq> []"
    by (simp_all add: fresh_context_def known_context_def initial_context_def)
  then show ?thesis
    using reviewingCart_CHECKOUT [of fresh_context] reviewingCart_CHECKOUT [of known_context]
    by simp
qed

text \<open>
  C5. In every state, \<open>RESET\<close> takes the machine to \<open>idle\<close> with an empty cart, no
  customer, no pending order, no selected category, empty \<open>customerInfo\<close> and no error;
  the user id stays.
\<close>

theorem RESET_any_state:
  "fst (send (s, ctx) RESET) = idle
   \<and> cart (snd (send (s, ctx) RESET)) = []
   \<and> customer (snd (send (s, ctx) RESET)) = None
   \<and> pendingOrder (snd (send (s, ctx) RESET)) = None
   \<and> selectedCategory (snd (send (s, ctx) RESET)) = None
   \<and> customerInfo (snd (send (s, ctx) RESET))
       = \<lparr> firstName = None, lastName = None, email = None \<rparr>
   \<and> error (snd (send (s, ctx) RESET)) = None
   \<and> userId (snd (send (s, ctx) RESET)) = userId ctx"
proof -
  have "send (s, ctx) RESET = (idle, reset_context ctx)"
    by (cases s; simp add: send_def select_transition_def leaf_on_def on_defs root_on_def
        microsteps_rest split: checkout_state.splits)
  then show ?thesis
    by (simp add: reset_context_def)
qed

theorem RESET_any_state_witness:
  "send (checkout placingOrder, known_context) RESET = (idle, fresh_context)"
proof -
  let ?r = "send (checkout placingOrder, known_context) RESET"
  have "snd ?r = fresh_context"
    using RESET_any_state [of "checkout placingOrder" known_context]
    by (simp add: fresh_context_def known_context_def initial_context_def
        ConversationContext.equality)
  moreover have "fst ?r = idle"
    using RESET_any_state [of "checkout placingOrder" known_context] by simp
  ultimately show ?thesis
    by (simp add: prod_eq_iff)
qed

text \<open>
  C7. Entering \<open>checkout\<close> (from \<open>selectingProducts\<close>, or from \<open>reviewingCart\<close> with a
  cart that is not empty) enters \<open>checkingCustomer\<close>, which is left at once: with a
  customer in the context for \<open>confirmingOrder\<close>, and the machine is then in neither
  \<open>collectingName\<close> nor \<open>collectingEmail\<close> on the way; without one for
  \<open>collectingName\<close>.
\<close>

theorem checkingCustomer_always:
  "send_path (selectingProducts, ctx) CHECKOUT = microsteps (checkout checkingCustomer) ctx
   \<and> (cart ctx \<noteq> [] \<longrightarrow>
        send_path (reviewingCart, ctx) CHECKOUT = microsteps (checkout checkingCustomer) ctx)
   \<and> (customer ctx \<noteq> None \<longrightarrow>
        microsteps (checkout checkingCustomer) ctx
          = [checkout checkingCustomer, checkout confirmingOrder]
        \<and> checkout collectingName \<notin> set (microsteps (checkout checkingCustomer) ctx)
        \<and> checkout collectingEmail \<notin> set (microsteps (checkout checkingCustomer) ctx)
        \<and> send (selectingProducts, ctx) CHECKOUT = (checkout confirmingOrder, ctx))
   \<and> (customer ctx = None \<longrightarrow>
        microsteps (checkout checkingCustomer) ctx
          = [checkout checkingCustomer, checkout collectingName]
        \<and> send (selectingProducts, ctx) CHECKOUT = (checkout collectingName, ctx))"
  by (simp add: send_path_def send_def select_transition_def leaf_on_def
      selectingProducts_on_def reviewingCart_on_def microsteps_checkingCustomer)

theorem checkingCustomer_always_witness:
  "send_path (reviewingCart, known_context) CHECKOUT
     = [checkout checkingCustomer, checkout confirmingOrder]
   \<and> send_path (reviewingCart, unknown_context) CHECKOUT
     = [checkout checkingCustomer, checkout collectingName]"
proof -
  have "cart known_context \<noteq> []" and "customer known_context \<noteq> None"
    and "cart unknown_context \<noteq> []" and "customer unknown_context = None"
    by (simp_all add: known_context_def unknown_context_def initial_context_def)
  then show ?thesis
    using checkingCustomer_always [of known_context]
      checkingCustomer_always [of unknown_context]
    by simp
qed

text \<open>
  C8. \<open>CUSTOMER_FOUND\<close> is not a declared event type and no state has a transition for
  it: sent in any state it changes neither the state nor the context. So
  \<open>handleCheckoutState\<close>, which sends it when the phone lookup finds a customer, leaves
  the actor as it was: the customer found is not put into the context.
\<close>

theorem CUSTOMER_FOUND_dropped:
  "event_type (CUSTOMER_FOUND c :: ('r, 'c, 'o) ConversationEvent) \<notin> set declared_event_types
   \<and> select_transition s ctx (CUSTOMER_FOUND c) = None
   \<and> send (s, ctx) (CUSTOMER_FOUND c) = (s, ctx)
   \<and> sent (handleCheckoutState (s, ctx) (Some c)) = [CUSTOMER_FOUND c]
   \<and> snapshot_after (handleCheckoutState (s, ctx) (Some c)) = (s, ctx)"
proof -
  have "select_transition s ctx (CUSTOMER_FOUND c) = None"
    by (cases s; simp add: select_transition_def leaf_on_def on_defs root_on_def
        split: checkout_state.splits)
  then show ?thesis
    by (simp add: send_def handleCheckoutState_def event_type_def declared_event_types_def)
qed

theorem CUSTOMER_FOUND_dropped_witness:
  "customer (snd (snapshot_after
      (handleCheckoutState (checkout collectingName, unknown_context) (Some 17)))) = None"
proof -
  have "snapshot_after (handleCheckoutState (checkout collectingName, unknown_context) (Some 17))
        = (checkout collectingName, unknown_context)"
    using CUSTOMER_FOUND_dropped [of 17 "checkout collectingName" unknown_context] by blast
  then show ?thesis
    by (simp add: unknown_context_def initial_context_def)
qed

subsection \<open>The conversation manager\<close>

text \<open>
  C6. \<open>getConversation\<close> returns the stored session (with \<open>lastActivity\<close> refreshed)
  when there is one and its idle time, now minus \<open>lastActivity\<close>, is below 30 minutes.
  When there is none, or the idle time has reached 30 minutes, it stores and returns a
  new session in step \<open>IDLE\<close> with an empty cart, no customer and no pending order.
\<close>

theorem getConversation_idle_timeout:
  "(\<forall>existing. conversations uid = Some existing
        \<and> t_check - lastActivity existing < 30 * 60 * 1000 \<longrightarrow>
      getConversation t_check t_touch uid conversations
        = (existing\<lparr>lastActivity := t_touch\<rparr>,
           conversations(uid \<mapsto> existing\<lparr>lastActivity := t_touch\<rparr>)))
   \<and> (conversations uid = None
        \<or> (\<exists>existing. conversations uid = Some existing
              \<and> 30 * 60 * 1000 \<le> t_check - lastActivity existing) \<longrightarrow>
      getConversation t_check t_touch uid conversations
        = (newConversation uid t_touch, conversations(uid \<mapsto> newConversation uid t_touch))
      \<and> currentStep (fst (getConversation t_check t_touch uid conversations)) = IDLE
      \<and> cs_cart (fst (getConversation t_check t_touch uid conversations)) = []
      \<and> cs_customer (fst (getConversation t_check t_touch uid conversations)) = None
      \<and> cs_pendingOrder (fst (getConversation t_check t_touch uid conversations)) = None
      \<and> lastActivity (fst (getConversation t_check t_touch uid conversations)) = t_touch)"
  by (auto simp: getConversation_def isSessionValid_def SESSION_TIMEOUT_def Let_def
      newConversation_def)

theorem getConversation_idle_timeout_witness:
  "fst (getConversation 1800999 1801005 ''5511999'' [''5511999'' \<mapsto> stored_session])
     = stored_session\<lparr>lastActivity := 1801005\<rparr>
   \<and> fst (getConversation 1801000 1801005 ''5511999'' [''5511999'' \<mapsto> stored_session])
     = newConversation ''5511999'' 1801005
   \<and> fst (getConversation 5 6 ''5511999'' (Map.empty :: string \<rightharpoonup> (unit, nat, nat) ConversationState))
     = newConversation ''5511999'' 6"
proof -
  have idle: "lastActivity stored_session = 1000"
    by (simp add: stored_session_def newConversation_def)
  show ?thesis
    using idle
      getConversation_idle_timeout
        [of "[''5511999'' \<mapsto> stored_session]" "''5511999''" 1800999 1801005]
      getConversation_idle_timeout
        [of "[''5511999'' \<mapsto> stored_session]" "''5511999''" 1801000 1801005]
      getConversation_idle_timeout
        [of "Map.empty :: string \<rightharpoonup> (unit, nat, nat) ConversationState" "''5511999''" 5 6]
    by simp
qed

subsection \<open>The message handler\<close>

text \<open>
  C9. \<open>processNaturalOrderRequest\<close> sends, in the order of the parsed items, one
  \<open>ADD_TO_CART\<close> with the item's quantity for each item whose \<open>productName\<close> is equal to
  the name of a catalog product, and nothing for the other items. The product sent is a
  catalog product with exactly that name, and the events sent are what the actor received.
\<close>

theorem processNaturalOrderRequest_exact_names:
  "sent (processNaturalOrderRequest actor products orderItems)
     = map (\<lambda>item. ADD_TO_CART
                     (the (find (\<lambda>p. product_name p = productName item) products))
                     (item_quantity item))
         (filter (\<lambda>item. productName item \<in> product_name ` set products) orderItems)
   \<and> (\<forall>item \<in> set orderItems. productName item \<in> product_name ` set products \<longrightarrow>
         (\<exists>p \<in> set products.
            find (\<lambda>p. product_name p = productName item) products = Some p
            \<and> product_name p = productName item))
   \<and> snapshot_after (processNaturalOrderRequest actor products orderItems)
     = send_all actor (sent (processNaturalOrderRequest actor products orderItems))"
proof -
  have found: "\<exists>p \<in> set products.
      find (\<lambda>p. product_name p = n) products = Some p \<and> product_name p = n"
    if "n \<in> product_name ` set products" for n
  proof (cases "find (\<lambda>p. product_name p = n) products")
    case None
    with that show ?thesis by (auto simp: find_None_iff)
  next
    case (Some p)
    then show ?thesis using find_name_Some [OF Some] by simp
  qed
  have "sent (processNaturalOrderRequest actor products orderItems)
     = map (\<lambda>item. ADD_TO_CART
                     (the (find (\<lambda>p. product_name p = productName item) products))
                     (item_quantity item))
         (filter (\<lambda>item. productName item \<in> product_name ` set products) orderItems)"
    by (simp add: processNaturalOrderRequest_def sent_add_items concat_matched)
  moreover have "snapshot_after (processNaturalOrderRequest actor products orderItems)
     = send_all actor (sent (processNaturalOrderRequest actor products orderItems))"
    using snapshot_add_items
      [of products orderItems "\<lparr> snapshot_after = actor, sent = [], texts = [] \<rparr>"]
    by (simp add: processNaturalOrderRequest_def send_all_def)
  ultimately show ?thesis
    using found by blast
qed

theorem processNaturalOrderRequest_exact_names_witness:
  "sent (processNaturalOrderRequest (greeting, fresh_context) [latte, mocha] parsed_order)
     = [ADD_TO_CART latte 2, ADD_TO_CART mocha 3]"
proof -
  have "filter (\<lambda>item. productName item \<in> product_name ` set [latte, mocha]) parsed_order
      = [\<lparr> productName = ''Caffe Latte'', item_quantity = 2 \<rparr>,
         \<lparr> productName = ''Mocha'', item_quantity = 3 \<rparr>]"
    by (simp add: parsed_order_def latte_def mocha_def)
  then show ?thesis
    using processNaturalOrderRequest_exact_names
      [of "(greeting, fresh_context)" "[latte, mocha]" parsed_order]
    by (simp add: latte_def mocha_def)
qed

text \<open>
  C10. \<open>handleCollectingEmailState\<close>: when the trimmed input lacks \<open>@\<close> or lacks a dot,
  no event is sent, the actor's snapshot is as before and the user is asked again for a
  valid address; otherwise exactly one event, \<open>PROVIDE_EMAIL\<close> with the trimmed input,
  is sent. Trimming does not change the check: an event is sent exactly when the input
  itself holds both characters.
\<close>

theorem handleCollectingEmailState_validation:
  "(\<not> (includes_ch (trim input) (CHR ''@'') \<and> includes_ch (trim input) (CHR ''.'')) \<longrightarrow>
      snapshot_after (handleCollectingEmailState actor input) = actor
      \<and> sent (handleCollectingEmailState actor input) = []
      \<and> texts (handleCollectingEmailState actor input)
          = [''Please provide a valid email address.''])
   \<and> (includes_ch (trim input) (CHR ''@'') \<and> includes_ch (trim input) (CHR ''.'') \<longrightarrow>
      sent (handleCollectingEmailState actor input) = [PROVIDE_EMAIL (trim input)]
      \<and> snapshot_after (handleCollectingEmailState actor input)
          = send actor (PROVIDE_EMAIL (trim input)))
   \<and> (sent (handleCollectingEmailState actor input) \<noteq> []
        \<longleftrightarrow> CHR ''@'' \<in> set input \<and> CHR ''.'' \<in> set input)"
proof -
  have "\<not> is_white_space (CHR ''@'')" and "\<not> is_white_space (CHR ''.'')"
    by (simp_all add: is_white_space_def)
  then have "includes_ch (trim input) (CHR ''@'') \<longleftrightarrow> CHR ''@'' \<in> set input"
    and "includes_ch (trim input) (CHR ''.'') \<longleftrightarrow> CHR ''.'' \<in> set input"
    by (simp_all add: includes_ch_def set_trim)
  then show ?thesis
    by (simp add: handleCollectingEmailState_def Let_def)
qed

theorem handleCollectingEmailState_validation_witness:
  "handleCollectingEmailState (checkout collectingEmail, unknown_context) '' ana.lopez ''
     = \<lparr> snapshot_after = (checkout collectingEmail, unknown_context), sent = [],
         texts = [''Please provide a valid email address.''] \<rparr>
   \<and> sent (handleCollectingEmailState (checkout collectingEmail, unknown_context) '' ana@x.com '')
     = [PROVIDE_EMAIL ''ana@x.com'']"
proof -
  have "trim '' ana.lopez '' = ''ana.lopez''" and "trim '' ana@x.com '' = ''ana@x.com''"
    by (simp_all add: trim_def is_white_space_def)
  then show ?thesis
    using handleCollectingEmailState_validation
        [of "'' ana.lopez ''" "(checkout collectingEmail, unknown_context)"]
      handleCollectingEmailState_validation
        [of "'' ana@x.com ''" "(checkout collectingEmail, unknown_context)"]
    by (simp add: includes_ch_def handled.equality)
qed

end
